theory Spec2Isabelle
  imports Main
begin

section \<open>Python values handled by the client\<close>

text \<open>
  The client (\<^verbatim>\<open>streamlit_app.py\<close>) only handles values decoded from JSON bodies and
  a few literals of its own. A Python \<^verbatim>\<open>str\<close> is modelled as a \<open>string\<close>, one
  \<open>char\<close> per character for the ASCII text the operations below work on; the rupee
  sign of the currency format is written as its three UTF-8 bytes.

  A Python \<^verbatim>\<open>float\<close> is kept by its exact value: sign, mantissa and binary exponent
  (the value is \<open>m * 2 ^ e\<close>, negated when the sign is set), or an infinity, or NaN.
\<close>

datatype pyfloat = Finite bool nat int | Infinity bool | NaN

datatype json =
    JNull
  | JBool bool
  | JInt int
  | JFloat pyfloat
  | JStr string
  | JList "json list"
  | JObj "(string \<times> json) list"

text \<open>Exceptions: the class, and the text that \<^verbatim>\<open>str(e)\<close> gives.\<close>

datatype exc_class =
    ConnectionError
  | ConnectTimeout
  | ReadTimeout
  | Timeout
  | HTTPError
  | JSONDecodeError
  | AttributeError
  | KeyError
  | TypeError
  | ValueError
  | OverflowError
  | OtherException

datatype exc = Exc exc_class string

text \<open>
  The class hierarchy of \<^verbatim>\<open>requests.exceptions\<close>: a connect timeout is both a
  connection error and a timeout; a read timeout is a timeout.
\<close>

fun isinstance_ConnectionError :: "exc_class \<Rightarrow> bool" where
  "isinstance_ConnectionError ConnectionError = True"
| "isinstance_ConnectionError ConnectTimeout = True"
| "isinstance_ConnectionError _ = False"

fun isinstance_Timeout :: "exc_class \<Rightarrow> bool" where
  "isinstance_Timeout Timeout = True"
| "isinstance_Timeout ConnectTimeout = True"
| "isinstance_Timeout ReadTimeout = True"
| "isinstance_Timeout _ = False"

text \<open>Truth value of a Python object, as \<^verbatim>\<open>if x\<close> and \<^verbatim>\<open>not x\<close> test it.\<close>

fun truthy :: "json \<Rightarrow> bool" where
  "truthy JNull = False"
| "truthy (JBool b) = b"
| "truthy (JInt n) = (n \<noteq> 0)"
| "truthy (JFloat (Finite s m e)) = (m \<noteq> 0)"
| "truthy (JFloat (Infinity s)) = True"
| "truthy (JFloat NaN) = True"
| "truthy (JStr s) = (s \<noteq> [])"
| "truthy (JList xs) = (xs \<noteq> [])"
| "truthy (JObj kvs) = (kvs \<noteq> [])"

text \<open>
  \<^verbatim>\<open>d.get(k, default)\<close> on a dict. Only a dict has \<^verbatim>\<open>get\<close>: the functions below that
  call it on a decoded value raise \<^verbatim>\<open>AttributeError\<close> on every other kind of value.
\<close>

definition dict_get :: "(string \<times> json) list \<Rightarrow> string \<Rightarrow> json \<Rightarrow> json" where
  "dict_get kvs k d = (case map_of kvs k of None \<Rightarrow> d | Some v \<Rightarrow> v)"

text \<open>\<^verbatim>\<open>k in d\<close> for a dict \<open>d\<close>.\<close>

definition dict_contains :: "(string \<times> json) list \<Rightarrow> string \<Rightarrow> bool" where
  "dict_contains kvs k = (k \<in> set (map fst kvs))"

section \<open>The transport: \<^verbatim>\<open>api_call\<close>\<close>

text \<open>
  The network is the environment. A request either raises inside \<^verbatim>\<open>requests\<close> or
  yields a response; of a response the client uses the status line and the outcome of
  \<^verbatim>\<open>response.json()\<close>, which is the decoded body or the text of the decoding error.
\<close>

record request =
  req_method :: string
  req_url :: string
  req_json :: "json option"
  req_timeout :: nat

record response =
  status_code :: nat
  reason :: string
  resp_url :: string
  json_body :: "string + json"

type_synonym backend = "request \<Rightarrow> exc + response"

definition API_BASE_URL :: string where
  "API_BASE_URL = ''http://localhost:8000''"

text \<open>The decimal digits of a natural number, as \<^verbatim>\<open>str\<close> and the formats print them.\<close>

definition digit_char :: "nat \<Rightarrow> char" where
  "digit_char d = ''0123456789'' ! (d mod 10)"

fun digits :: "nat \<Rightarrow> string" where
  "digits n = (if n < 10 then [digit_char n]
               else digits (n div 10) @ [digit_char (n mod 10)])"

declare digits.simps [simp del]

definition str_int :: "int \<Rightarrow> string" where
  "str_int n = (if n < 0 then ''-'' else []) @ digits (nat \<bar>n\<bar>)"

text \<open>
  \<^verbatim>\<open>Response.raise_for_status\<close> of the \<^verbatim>\<open>requests\<close> library: an \<^verbatim>\<open>HTTPError\<close> for
  the status codes 400 to 599, nothing otherwise.
\<close>

definition raise_for_status :: "response \<Rightarrow> exc option" where
  "raise_for_status r =
     (if 400 \<le> status_code r \<and> status_code r < 500 then
        Some (Exc HTTPError (digits (status_code r) @ '' Client Error: '' @ reason r
                              @ '' for url: '' @ resp_url r))
      else if 500 \<le> status_code r \<and> status_code r < 600 then
        Some (Exc HTTPError (digits (status_code r) @ '' Server Error: '' @ reason r
                              @ '' for url: '' @ resp_url r))
      else None)"

definition response_json :: "response \<Rightarrow> exc + json" where
  "response_json r = (case json_body r of Inl m \<Rightarrow> Inl (Exc JSONDecodeError m) | Inr v \<Rightarrow> Inr v)"

definition failure :: "string \<Rightarrow> json" where
  "failure e = JObj [(''success'', JBool False), (''error'', JStr e)]"

text \<open>
  The body of the \<^verbatim>\<open>try\<close> block. The second component is the list of requests that
  were issued to the backend.
\<close>

definition after_request :: "exc + response \<Rightarrow> exc + json" where
  "after_request out =
     (case out of
        Inl e \<Rightarrow> Inl e
      | Inr r \<Rightarrow> (case raise_for_status r of Some e \<Rightarrow> Inl e | None \<Rightarrow> response_json r))"

definition api_call_try ::
    "backend \<Rightarrow> string \<Rightarrow> string \<Rightarrow> json option \<Rightarrow> (exc + json) \<times> request list" where
  "api_call_try be endpoint method data =
     (let url = API_BASE_URL @ endpoint in
      if method = ''GET'' then
        (let rq = \<lparr>req_method = ''GET'', req_url = url, req_json = None, req_timeout = 10\<rparr>
         in (after_request (be rq), [rq]))
      else if method = ''POST'' then
        (let rq = \<lparr>req_method = ''POST'', req_url = url, req_json = data, req_timeout = 10\<rparr>
         in (after_request (be rq), [rq]))
      else (Inr (failure (''Unknown method: '' @ method)), []))"

text \<open>The \<^verbatim>\<open>except\<close> clauses, in the order of the source.\<close>

fun api_call_except :: "exc \<Rightarrow> json" where
  "api_call_except (Exc c m) =
     (if isinstance_ConnectionError c then
        failure ''Cannot connect to API server. Is it running on port 8000?''
      else if isinstance_Timeout c then failure ''API request timed out''
      else failure m)"

definition api_call ::
    "backend \<Rightarrow> string \<Rightarrow> string \<Rightarrow> json option \<Rightarrow> json \<times> request list" where
  "api_call be endpoint method data =
     (case api_call_try be endpoint method data of
        (Inl e, log) \<Rightarrow> (api_call_except e, log)
      | (Inr v, log) \<Rightarrow> (v, log))"

definition get_manager_dashboard :: "backend \<Rightarrow> int \<Rightarrow> json \<times> request list" where
  "get_manager_dashboard be manager_id =
     api_call be (''/api/manager/dashboard/'' @ str_int manager_id) ''GET'' None"

definition get_executive_dashboard :: "backend \<Rightarrow> int \<Rightarrow> json \<times> request list" where
  "get_executive_dashboard be executive_id =
     api_call be (''/api/executive/dashboard/'' @ str_int executive_id) ''GET'' None"

text \<open>
  The user id is whatever the session holds: 1 at the start, later the \<^verbatim>\<open>id\<close> field of
  the selected user as the backend sent it.
\<close>

definition process_nlp_message :: "backend \<Rightarrow> string \<Rightarrow> json \<Rightarrow> json \<times> request list" where
  "process_nlp_message be message uid =
     api_call be ''/api/mcp/message'' ''POST''
       (Some (JObj [(''message'', JStr message), (''user_id'', uid)]))"

definition get_users :: "backend \<Rightarrow> json \<times> request list" where
  "get_users be = api_call be ''/api/users'' ''GET'' None"

section \<open>Text operations and number formatting\<close>

text \<open>
  \<^verbatim>\<open>str.upper\<close>, \<^verbatim>\<open>str.replace('_', ' ')\<close> and \<^verbatim>\<open>str.title\<close>. Python cases every
  cased letter of Unicode; the definitions below case the 52 letters of ASCII and keep
  every other character, so they give what Python gives on ASCII strings and only there.
  A statement about the text they produce is made for ASCII strings.
\<close>

definition is_ascii :: "string \<Rightarrow> bool" where
  "is_ascii s = list_all (\<lambda>c. \<not> digit7 c) s"

definition ascii_lowercase :: string where
  "ascii_lowercase = ''abcdefghijklmnopqrstuvwxyz''"

definition ascii_uppercase :: string where
  "ascii_uppercase = ''ABCDEFGHIJKLMNOPQRSTUVWXYZ''"

definition is_lower_c :: "char \<Rightarrow> bool" where
  "is_lower_c c = (c \<in> set ascii_lowercase)"

definition is_upper_c :: "char \<Rightarrow> bool" where
  "is_upper_c c = (c \<in> set ascii_uppercase)"

definition upper_c :: "char \<Rightarrow> char" where
  "upper_c c = (case map_of (zip ascii_lowercase ascii_uppercase) c of Some u \<Rightarrow> u | None \<Rightarrow> c)"

definition lower_c :: "char \<Rightarrow> char" where
  "lower_c c = (case map_of (zip ascii_uppercase ascii_lowercase) c of Some l \<Rightarrow> l | None \<Rightarrow> c)"

definition upper :: "string \<Rightarrow> string" where
  "upper s = map upper_c s"

definition replace_underscores :: "string \<Rightarrow> string" where
  "replace_underscores s = map (\<lambda>c. if c = CHR ''_'' then CHR '' '' else c) s"

text \<open>
  \<^verbatim>\<open>str.title\<close>: a letter that follows a letter is lowered, any other letter is
  raised; every other character is kept and ends the word.
\<close>

fun title_from :: "bool \<Rightarrow> string \<Rightarrow> string" where
  "title_from prev [] = []"
| "title_from prev (c # cs) =
     (if is_lower_c c \<or> is_upper_c c
      then (if prev then lower_c c else upper_c c) # title_from True cs
      else c # title_from False cs)"

definition title :: "string \<Rightarrow> string" where
  "title s = title_from False s"

text \<open>\<^verbatim>\<open>key.replace('_', ' ').title()\<close>, the label of an entity row.\<close>

definition humanize :: "string \<Rightarrow> string" where
  "humanize key = title (replace_underscores key)"

text \<open>
  The format specifications \<^verbatim>\<open>,.0f\<close> and \<^verbatim>\<open>.0%\<close>. Both convert an \<^verbatim>\<open>int\<close> to
  a \<^verbatim>\<open>float\<close> first (53 bits of mantissa, ties to even, \<^verbatim>\<open>OverflowError\<close> beyond
  the range), and print the float rounded to an integer, ties to even.
\<close>

definition round_half_even :: "nat \<Rightarrow> nat \<Rightarrow> nat" where
  "round_half_even m d =
     (let q = m div d; r = m mod d
      in if 2 * r < d then q else if d < 2 * r then q + 1 else if even q then q else q + 1)"

fun bitlen :: "nat \<Rightarrow> nat" where
  "bitlen n = (if n = 0 then 0 else Suc (bitlen (n div 2)))"

declare bitlen.simps [simp del]

definition round53 :: "nat \<Rightarrow> int \<Rightarrow> nat \<times> int" where
  "round53 m e =
     (let b = bitlen m
      in if b \<le> 53 then (m, e) else (round_half_even m (2 ^ (b - 53)), e + int (b - 53)))"

definition float_overflows :: "nat \<Rightarrow> int \<Rightarrow> bool" where
  "float_overflows m e = (m \<noteq> 0 \<and> 1024 < int (bitlen m) + e)"

definition int_to_float :: "int \<Rightarrow> exc + pyfloat" where
  "int_to_float n =
     (case round53 (nat \<bar>n\<bar>) 0 of
        (m, e) \<Rightarrow>
          if float_overflows m e then Inl (Exc OverflowError ''int too large to convert to float'')
          else Inr (Finite (n < 0) m e))"

text \<open>
  The product with 100 that \<^verbatim>\<open>%\<close> takes before printing. Results too small for a
  normal float are not rounded further here: they print as zero either way.
\<close>

fun float_times_100 :: "pyfloat \<Rightarrow> pyfloat" where
  "float_times_100 (Finite s m e) =
     (case round53 (100 * m) e of
        (m', e') \<Rightarrow> if float_overflows m' e' then Infinity s else Finite s m' e')"
| "float_times_100 (Infinity s) = Infinity s"
| "float_times_100 NaN = NaN"

definition float_round0 :: "nat \<Rightarrow> int \<Rightarrow> nat" where
  "float_round0 m e = (if 0 \<le> e then m * 2 ^ nat e else round_half_even m (2 ^ nat (- e)))"

text \<open>Thousands separators: a comma before every group of three digits, from the right.\<close>

fun chunk3 :: "string \<Rightarrow> string" where
  "chunk3 (a # b # c # d # rest) = a # b # c # CHR '','' # chunk3 (d # rest)"
| "chunk3 xs = xs"

definition thousands :: "string \<Rightarrow> string" where
  "thousands ds = rev (chunk3 (rev ds))"

fun format_f0 :: "bool \<Rightarrow> pyfloat \<Rightarrow> string" where
  "format_f0 comma (Finite s m e) =
     (if s then ''-'' else [])
     @ (if comma then thousands (digits (float_round0 m e)) else digits (float_round0 m e))"
| "format_f0 comma (Infinity s) = (if s then ''-inf'' else ''inf'')"
| "format_f0 comma NaN = ''nan''"

text \<open>What \<^verbatim>\<open>format(v, spec)\<close> does with a float specification on each kind of value.\<close>

fun float_for_format :: "json \<Rightarrow> exc + pyfloat" where
  "float_for_format (JInt n) = int_to_float n"
| "float_for_format (JBool b) = int_to_float (if b then 1 else 0)"
| "float_for_format (JFloat f) = Inr f"
| "float_for_format (JStr s) = Inl (Exc ValueError ''Unknown format code for object of type 'str' '')"
| "float_for_format JNull =
     Inl (Exc TypeError ''unsupported format string passed to NoneType.__format__'')"
| "float_for_format (JList xs) =
     Inl (Exc TypeError ''unsupported format string passed to list.__format__'')"
| "float_for_format (JObj kvs) =
     Inl (Exc TypeError ''unsupported format string passed to dict.__format__'')"

definition rupee :: string where
  "rupee = [CHR 0xE2, CHR 0x82, CHR 0xB9]"

definition format_currency :: "json \<Rightarrow> exc + string" where
  "format_currency v =
     (case float_for_format v of Inl e \<Rightarrow> Inl e | Inr f \<Rightarrow> Inr (rupee @ format_f0 True f))"

definition format_percent :: "json \<Rightarrow> exc + string" where
  "format_percent v =
     (case float_for_format v of
        Inl e \<Rightarrow> Inl e
      | Inr f \<Rightarrow> Inr (format_f0 False (float_times_100 f) @ ''%''))"

section \<open>What a script run draws\<close>

text \<open>
  A run of the script draws a sequence of Streamlit elements. A value interpolated into
  an f-string without a format specification is kept as the value (\<open>Val v\<close> stands for
  \<^verbatim>\<open>str(v)\<close>, which never raises on these values). An exception that leaves a display
  function ends the run: the model returns the exception instead of the elements.
\<close>

datatype frag = Lit string | Val json

record row =
  Project :: json
  Client :: json
  Status :: string
  Value :: string

datatype ui =
    Title string
  | Subheader string
  | Write "frag list"
  | WriteObj json
  | Info string
  | Success "frag list"
  | Error "frag list"
  | Dataframe "row list"
  | Expander "frag list" "ui list"

section \<open>The projects table\<close>

text \<open>Iterating over an object, as a \<^verbatim>\<open>for\<close> clause does.\<close>

fun py_iter :: "json \<Rightarrow> exc + json list" where
  "py_iter (JList xs) = Inr xs"
| "py_iter (JStr s) = Inr (map (\<lambda>c. JStr [c]) s)"
| "py_iter (JObj kvs) = Inr (map (\<lambda>kv. JStr (fst kv)) kvs)"
| "py_iter _ = Inl (Exc TypeError ''object is not iterable'')"

fun traverse :: "('a \<Rightarrow> exc + 'b) \<Rightarrow> 'a list \<Rightarrow> exc + 'b list" where
  "traverse f [] = Inr []"
| "traverse f (x # xs) =
     (case f x of
        Inl e \<Rightarrow> Inl e
      | Inr y \<Rightarrow> (case traverse f xs of Inl e \<Rightarrow> Inl e | Inr ys \<Rightarrow> Inr (y # ys)))"

fun py_upper :: "json \<Rightarrow> exc + string" where
  "py_upper (JStr s) = Inr (upper s)"
| "py_upper _ = Inl (Exc AttributeError ''object has no attribute 'upper' '')"

text \<open>The column \<^verbatim>\<open>Value\<close> of a project: the conditional expression of the source.\<close>

definition project_value :: "(string \<times> json) list \<Rightarrow> exc + string" where
  "project_value p =
     (if truthy (dict_get p ''estimated_value'' JNull)
      then format_currency (dict_get p ''estimated_value'' (JInt 0))
      else Inr ''N/A'')"

fun project_row :: "json \<Rightarrow> exc + row" where
  "project_row (JObj p) =
     (case py_upper (dict_get p ''status'' (JStr ''N/A'')) of
        Inl e \<Rightarrow> Inl e
      | Inr st \<Rightarrow>
          (case project_value p of
             Inl e \<Rightarrow> Inl e
           | Inr v \<Rightarrow> Inr \<lparr>Project = dict_get p ''name'' (JStr ''N/A''),
                           Client = dict_get p ''client'' (JStr ''N/A''),
                           Status = st, Value = v\<rparr>))"
| "project_row _ = Inl (Exc AttributeError ''object has no attribute 'get' '')"

definition display_projects_table :: "json \<Rightarrow> exc + ui list" where
  "display_projects_table projects =
     (if \<not> truthy projects then Inr [Info ''No projects found'']
      else (case py_iter projects of
              Inl e \<Rightarrow> Inl e
            | Inr ps \<Rightarrow> (case traverse project_row ps of
                           Inl e \<Rightarrow> Inl e
                         | Inr rows \<Rightarrow> Inr [Dataframe rows])))"

section \<open>Session state\<close>

text \<open>
  \<^verbatim>\<open>st.session_state\<close>: each of the three keys is absent (\<open>None\<close>) until it is set.
\<close>

record session =
  user_id :: "json option"
  user_role :: "json option"
  chat_messages :: "json list option"

definition initialize_session :: "session \<Rightarrow> session" where
  "initialize_session s =
     s\<lparr>user_id := (case user_id s of None \<Rightarrow> Some (JInt 1) | Some v \<Rightarrow> Some v),
       user_role := (case user_role s of None \<Rightarrow> Some (JStr ''manager'') | Some v \<Rightarrow> Some v),
       chat_messages := (case chat_messages s of None \<Rightarrow> Some [] | Some v \<Rightarrow> Some v)\<rparr>"

definition missing_state :: exc where
  "missing_state = Exc AttributeError ''st.session_state has no such attribute''"

section \<open>The NLP chat page\<close>

text \<open>The pictographs of the page, as UTF-8.\<close>

definition check_mark :: string where
  "check_mark = [CHR 0xE2, CHR 0x9C, CHR 0x85]"

definition cross_mark :: string where
  "cross_mark = [CHR 0xE2, CHR 0x9D, CHR 0x8C]"

definition magnifier :: string where
  "magnifier = [CHR 0xF0, CHR 0x9F, CHR 0x94, CHR 0x8D]"

definition clipboard :: string where
  "clipboard = [CHR 0xF0, CHR 0x9F, CHR 0x93, CHR 0x8B]"

definition sparkles :: string where
  "sparkles = [CHR 0xE2, CHR 0x9C, CHR 0xA8]"

definition memo :: string where
  "memo = [CHR 0xF0, CHR 0x9F, CHR 0x93, CHR 0x9D]"

definition envelope :: string where
  "envelope = [CHR 0xF0, CHR 0x9F, CHR 0x93, CHR 0xA8]"

definition speech_balloon :: string where
  "speech_balloon = [CHR 0xF0, CHR 0x9F, CHR 0x92, CHR 0xAC]"

definition link_sign :: string where
  "link_sign = [CHR 0xF0, CHR 0x9F, CHR 0x94, CHR 0x97]"

definition reserved_keys :: "string list" where
  "reserved_keys = [''intent'', ''action'', ''confidence'', ''original_message'', ''timestamp'']"

text \<open>
  The line written for one key and value, by the loop over the entities and by the loop
  over the execution data: \<^verbatim>\<open>f"- **{key.replace('_', ' ').title()}**: {value}"\<close>.
\<close>

definition entity_line :: "string \<times> json \<Rightarrow> ui" where
  "entity_line kv = Write [Lit ''- **'', Lit (humanize (fst kv)), Lit ''**: '', Val (snd kv)]"

fun py_items :: "json \<Rightarrow> exc + (string \<times> json) list" where
  "py_items (JObj kvs) = Inr kvs"
| "py_items _ = Inl (Exc AttributeError ''object has no attribute 'items' '')"

text \<open>The parsed intent and the extracted entities of a successful result.\<close>

fun parsed_view :: "json \<Rightarrow> exc + ui list" where
  "parsed_view (JObj parsed) =
     (case format_percent (dict_get parsed ''confidence'' (JInt 0)) of
        Inl e \<Rightarrow> Inl e
      | Inr pct \<Rightarrow>
          (let entities = filter (\<lambda>kv. fst kv \<notin> set reserved_keys) parsed
           in Inr ([Subheader (magnifier @ '' Parsed Intent''),
                    Write [Lit ''**Intent**: '', Val (dict_get parsed ''intent'' (JStr ''N/A''))],
                    Write [Lit ''**Action**: '', Val (dict_get parsed ''action'' (JStr ''N/A''))],
                    Write [Lit ''**Confidence**: '', Lit pct],
                    Subheader (clipboard @ '' Extracted Entities'')]
                   @ (if entities \<noteq> [] then map entity_line entities else []))))"
| "parsed_view _ = Inl (Exc AttributeError ''object has no attribute 'get' '')"

fun execution_view :: "json \<Rightarrow> exc + ui list" where
  "execution_view (JObj execution) =
     (if truthy (dict_get execution ''success'' JNull) then
        (case py_items (dict_get execution ''data'' (JObj [])) of
           Inl e \<Rightarrow> Inl e
         | Inr items \<Rightarrow>
             Inr ([Subheader (sparkles @ '' Execution Result''),
                   Write [Lit ''**Status**: '', Val (dict_get execution ''action'' (JStr ''N/A''))]]
                  @ map entity_line items))
      else Inr [])"
| "execution_view _ = Inl (Exc AttributeError ''object has no attribute 'get' '')"

text \<open>The branch \<^verbatim>\<open>if result.get("success"): ... else: ...\<close> on the result of the call.\<close>

fun nlp_result_view :: "json \<Rightarrow> exc + ui list" where
  "nlp_result_view (JObj result) =
     (if truthy (dict_get result ''success'' JNull) then
        (case parsed_view (dict_get result ''parsed'' (JObj [])) of
           Inl e \<Rightarrow> Inl e
         | Inr shown \<Rightarrow>
             (case execution_view (dict_get result ''execution'' (JObj [])) of
                Inl e \<Rightarrow> Inl e
              | Inr executed \<Rightarrow>
                  Inr (Success [Lit (check_mark @ '' Message processed successfully!'')]
                       # shown @ executed)))
      else Inr [Error [Lit (cross_mark @ '' Error: ''),
                       Val (dict_get result ''error'' (JStr ''Unknown error''))]])"
| "nlp_result_view _ = Inl (Exc AttributeError ''object has no attribute 'get' '')"

text \<open>
  The slice \<^verbatim>\<open>xs[-n:]\<close> for a literal \<open>n\<close>, and the subscriptions \<^verbatim>\<open>msg['message']\<close>
  and \<^verbatim>\<open>[:50]\<close> of the history loop. Only strings and lists can be sliced; slicing a
  dict raises as well (\<^verbatim>\<open>TypeError\<close>, or \<^verbatim>\<open>KeyError\<close> from Python 3.12 on).
\<close>

definition slice_last :: "nat \<Rightarrow> 'a list \<Rightarrow> 'a list" where
  "slice_last n xs = (if n = 0 then xs else drop (length xs - n) xs)"

fun py_getitem :: "json \<Rightarrow> string \<Rightarrow> exc + json" where
  "py_getitem (JObj kvs) k =
     (case map_of kvs k of None \<Rightarrow> Inl (Exc KeyError k) | Some v \<Rightarrow> Inr v)"
| "py_getitem (JStr s) k = Inl (Exc TypeError ''string indices must be integers'')"
| "py_getitem (JList xs) k = Inl (Exc TypeError ''list indices must be integers or slices'')"
| "py_getitem _ k = Inl (Exc TypeError ''object is not subscriptable'')"

fun py_slice_to :: "nat \<Rightarrow> json \<Rightarrow> exc + json" where
  "py_slice_to n (JStr s) = Inr (JStr (take n s))"
| "py_slice_to n (JList xs) = Inr (JList (take n xs))"
| "py_slice_to n _ = Inl (Exc TypeError ''object cannot be sliced'')"

definition history_entry :: "json \<Rightarrow> exc + ui" where
  "history_entry msg =
     (case py_getitem msg ''message'' of
        Inl e \<Rightarrow> Inl e
      | Inr m \<Rightarrow>
          (case py_slice_to 50 m of
             Inl e \<Rightarrow> Inl e
           | Inr head \<Rightarrow> Inr (Expander [Lit (envelope @ '' ''), Val head, Lit ''...'']
                                     [WriteObj msg])))"

definition history_view :: "json list \<Rightarrow> exc + ui list" where
  "history_view msgs =
     (if msgs \<noteq> [] then
        (case traverse history_entry (slice_last 5 msgs) of
           Inl e \<Rightarrow> Inl e
         | Inr entries \<Rightarrow> Inr (Subheader (memo @ '' Message History'') # entries))
      else Inr [Subheader (memo @ '' Message History''),
                Info ''No messages yet. Send a message to get started!''])"

definition dquote :: string where
  "dquote = [CHR 0x22]"

definition nlp_chat_header :: "ui list" where
  "nlp_chat_header =
     [Title (speech_balloon @ '' NLP Message Processor''),
      Write [Lit ''Send natural language messages to automate sales operations.'',
             Lit ''Examples:'',
             Lit (''- '' @ dquote @ ''Google ka iss week ka 1.2 lakh payment aa gaya'' @ dquote),
             Lit (''- '' @ dquote @ ''Ramesh is assigned to Google project'' @ dquote),
             Lit (''- '' @ dquote @ ''Google project active karo'' @ dquote),
             Lit (''- '' @ dquote @ ''Dharmendra ke sare active project dikhado'' @ dquote)]]"

text \<open>
  One run of \<^verbatim>\<open>display_nlp_chat\<close>. The text of the input field and the state of the
  button are the inputs \<open>message\<close> and \<open>send_button\<close>. The result is what was drawn (or
  the exception that ended the run), the session state after the run, and the requests
  sent to the backend.
\<close>

definition display_nlp_chat ::
    "backend \<Rightarrow> session \<Rightarrow> string \<Rightarrow> bool \<Rightarrow> (exc + ui list) \<times> session \<times> request list" where
  "display_nlp_chat be s message send_button =
     (case (if send_button \<and> message \<noteq> [] then
              (case user_id s of
                 None \<Rightarrow> (Inl missing_state, [])
               | Some uid \<Rightarrow>
                   (case process_nlp_message be message uid of
                      (result, log) \<Rightarrow> (nlp_result_view result, log)))
            else (Inr [], [])) of
        (Inl e, log) \<Rightarrow> (Inl e, s, log)
      | (Inr shown, log) \<Rightarrow>
          (case chat_messages s of
             None \<Rightarrow> (Inl missing_state, s, log)
           | Some msgs \<Rightarrow>
               (case history_view msgs of
                  Inl e \<Rightarrow> (Inl e, s, log)
                | Inr history \<Rightarrow> (Inr (nlp_chat_header @ shown @ history), s, log))))"

section \<open>The server status of the sidebar\<close>

text \<open>The block of \<^verbatim>\<open>display_sidebar\<close> under the comment \<^verbatim>\<open># Server status\<close>.\<close>

definition server_status :: "backend \<Rightarrow> (exc + ui list) \<times> request list" where
  "server_status be =
     (case api_call be ''/health'' ''GET'' None of
        (JObj health, log) \<Rightarrow>
          (Inr [Subheader (link_sign @ '' Server Status''),
                if truthy (dict_get health ''success'' JNull) \<or> dict_contains health ''status''
                then Success [Lit (check_mark @ '' Connected (v''),
                              Val (dict_get health ''version'' (JStr ''unknown'')), Lit '')'']
                else Error [Lit (cross_mark @ '' Cannot connect to API server'')]], log)
      | (_, log) \<Rightarrow> (Inl (Exc AttributeError ''object has no attribute 'get' ''), log))"

section \<open>Vocabulary of the properties\<close>

text \<open>
  The request that \<^verbatim>\<open>api_call\<close> builds for one of its two methods: \<^verbatim>\<open>requests.get\<close>
  sends no body, \<^verbatim>\<open>requests.post\<close> sends \<open>data\<close> as JSON, both with the timeout 10.
\<close>

definition the_request :: "string \<Rightarrow> string \<Rightarrow> json option \<Rightarrow> request" where
  "the_request endpoint method data =
     \<lparr>req_method = method, req_url = API_BASE_URL @ endpoint,
      req_json = (if method = ''POST'' then data else None), req_timeout = 10\<rparr>"




text \<open>Sample backends: a healthy server, and the answer to an assignment command.\<close>

definition health_backend :: backend where
  "health_backend rq =
     Inr \<lparr>status_code = 200, reason = ''OK'', resp_url = req_url rq,
          json_body = Inr (JObj [(''status'', JStr ''healthy''), (''version'', JStr ''1.0.0'')])\<rparr>"

definition assignment_result :: json where
  "assignment_result =
     JObj [(''success'', JBool True),
           (''parsed'', JObj [(''intent'', JStr ''assignment''),
                              (''action'', JStr ''assign_employee''),
                              (''confidence'', JFloat (Finite False 8286623314361713 (- 53))),
                              (''employee'', JStr ''Ramesh''),
                              (''project'', JStr ''Google'')]),
           (''execution'', JObj [(''success'', JBool True),
                                 (''action'', JStr ''assigned''),
                                 (''data'', JObj [(''employee'', JStr ''Ramesh''),
                                                  (''project'', JStr ''Google'')])])]"

definition assignment_backend :: backend where
  "assignment_backend rq =
     Inr \<lparr>status_code = 200, reason = ''OK'', resp_url = req_url rq,
          json_body = Inr assignment_result\<rparr>"

definition empty_session :: session where
  "empty_session = \<lparr>user_id = None, user_role = None, chat_messages = None\<rparr>"

text \<open>
  Successive submissions within one session: Streamlit runs the script again for each
  one, with the session state that the previous run left. Each run is the chat page with
  the text of the command in the input field and the button pressed.
\<close>

fun run_submissions :: "backend \<Rightarrow> session \<Rightarrow> string list \<Rightarrow> session" where
  "run_submissions be s [] = s"
| "run_submissions be s (message # rest) =
     run_submissions be (fst (snd (display_nlp_chat be s message True))) rest"

section \<open>Properties of the transport\<close>


lemma api_call_try_request:
  assumes "meth = ''GET'' \<or> meth = ''POST''"
  shows "api_call_try be endpoint meth data =
           (after_request (be (the_request endpoint meth data)),
            [the_request endpoint meth data])"
  using assms by (auto simp: api_call_try_def the_request_def Let_def)

lemma api_call_raised:
  assumes "meth = ''GET'' \<or> meth = ''POST''"
    and "be (the_request endpoint meth data) = Inl (Exc c m)"
  shows "api_call be endpoint meth data =
           (failure (if isinstance_ConnectionError c
                     then ''Cannot connect to API server. Is it running on port 8000?''
                     else if isinstance_Timeout c then ''API request timed out'' else m),
            [the_request endpoint meth data])"
  unfolding api_call_def api_call_try_request [OF assms(1)] assms(2) after_request_def
  by simp





text \<open>
  C3, as stated, fails: after a timeout the error string is not \<^verbatim>\<open>timeout\<close>, and after
  a refused connection it is not \<^verbatim>\<open>connection unavailable\<close>.
\<close>

theorem api_call_error_text_counterexample:
  "fst (api_call (\<lambda>rq. Inl (Exc ReadTimeout ''Read timed out.'')) ''/health'' ''GET'' None)
     \<noteq> JObj [(''success'', JBool False), (''error'', JStr ''timeout'')]
   \<and> fst (api_call (\<lambda>rq. Inl (Exc ConnectionError ''Connection refused'')) ''/health'' ''GET'' None)
     \<noteq> JObj [(''success'', JBool False), (''error'', JStr ''connection unavailable'')]"
  by (simp add: api_call_def api_call_try_def after_request_def failure_def)

text \<open>
  C3, amended. Every request carries the timeout 10. When the request raises a connection
  error (a connect timeout is one), the error string is
  \<^verbatim>\<open>Cannot connect to API server. Is it running on port 8000?\<close>; when it raises any other
  timeout, the error string is \<^verbatim>\<open>API request timed out\<close>; otherwise it is the text of the
  exception.
\<close>

theorem api_call_exception_messages:
  assumes "meth = ''GET'' \<or> meth = ''POST''"
    and "be (the_request endpoint meth data) = Inl (Exc c m)"
  shows "req_timeout (the_request endpoint meth data) = 10
         \<and> api_call be endpoint meth data =
           (JObj [(''success'', JBool False),
                  (''error'', JStr (if isinstance_ConnectionError c
                     then ''Cannot connect to API server. Is it running on port 8000?''
                     else if isinstance_Timeout c then ''API request timed out'' else m))],
            [the_request endpoint meth data])"
  using api_call_raised [of meth be endpoint data c m, OF assms]
  by (simp add: failure_def the_request_def)

theorem api_call_exception_messages_witness:
  "api_call (\<lambda>rq. Inl (Exc ReadTimeout ''Read timed out.'')) ''/health'' ''GET'' None =
     (JObj [(''success'', JBool False), (''error'', JStr ''API request timed out'')],
      [the_request ''/health'' ''GET'' None])
   \<and> api_call (\<lambda>rq. Inl (Exc ConnectTimeout ''Connect timed out.'')) ''/health'' ''GET'' None =
     (JObj [(''success'', JBool False),
            (''error'', JStr ''Cannot connect to API server. Is it running on port 8000?'')],
      [the_request ''/health'' ''GET'' None])"
  using api_call_exception_messages [of "''GET''" "\<lambda>rq. Inl (Exc ReadTimeout ''Read timed out.'')"
          "''/health''" None ReadTimeout "''Read timed out.''"]
    api_call_exception_messages [of "''GET''" "\<lambda>rq. Inl (Exc ConnectTimeout ''Connect timed out.'')"
          "''/health''" None ConnectTimeout "''Connect timed out.''"]
  by simp

text \<open>
  C9. For a method other than \<^verbatim>\<open>GET\<close> and \<^verbatim>\<open>POST\<close>, \<^verbatim>\<open>api_call\<close> returns the failure
  dictionary with the text \<^verbatim>\<open>Unknown method: \<close> followed by the method, and sends no
  request: the list of requests sent is empty.
\<close>

theorem api_call_unknown_method:
  assumes "meth \<noteq> ''GET''" and "meth \<noteq> ''POST''"
  shows "api_call be endpoint meth data =
           (JObj [(''success'', JBool False), (''error'', JStr (''Unknown method: '' @ meth))], [])"
  using assms by (simp add: api_call_def api_call_try_def failure_def)

theorem api_call_unknown_method_witness:
  "api_call health_backend ''/health'' ''PUT'' None =
     (JObj [(''success'', JBool False), (''error'', JStr ''Unknown method: PUT'')], [])"
  using api_call_unknown_method [of "''PUT''" health_backend "''/health''" None] by simp

section \<open>Properties of the projects table\<close>

lemmas char_eval =
  is_lower_c_def is_upper_c_def upper_c_def lower_c_def ascii_lowercase_def ascii_uppercase_def

lemmas num_eval =
  digits.simps digit_char_def thousands_def float_round0_def round_half_even_def round53_def
  bitlen.simps float_overflows_def int_to_float_def Let_def

lemma bitlen_le: "n < 2 ^ k \<Longrightarrow> bitlen n \<le> k"
proof (induction k arbitrary: n)
  case 0
  then show ?case by (simp add: bitlen.simps)
next
  case (Suc k)
  show ?case
  proof (cases "n = 0")
    case True
    then show ?thesis by (simp add: bitlen.simps)
  next
    case False
    from Suc.prems have "n div 2 < 2 ^ k" by simp
    then have "bitlen (n div 2) \<le> k" by (rule Suc.IH)
    with False show ?thesis by (subst bitlen.simps) simp
  qed
qed

lemma int_to_float_exact:
  assumes "\<bar>n\<bar> < 2 ^ 53"
  shows "int_to_float n = Inr (Finite (n < 0) (nat \<bar>n\<bar>) 0)"
proof -
  from assms have "nat \<bar>n\<bar> < 2 ^ 53"
    by (simp add: nat_less_iff)
  then have "bitlen (nat \<bar>n\<bar>) \<le> 53" by (rule bitlen_le)
  then show ?thesis
    by (simp add: int_to_float_def round53_def float_overflows_def)
qed

lemma format_currency_int:
  assumes "\<bar>n\<bar> < 2 ^ 53"
  shows "format_currency (JInt n)
           = Inr (rupee @ (if n < 0 then ''-'' else []) @ thousands (digits (nat \<bar>n\<bar>)))"
  by (simp add: format_currency_def int_to_float_exact [OF assms] float_round0_def)

lemma traverse_length: "traverse f xs = Inr ys \<Longrightarrow> length ys = length xs"
  by (induction xs arbitrary: ys) (auto split: sum.splits)

text \<open>
  C4, as stated, fails: a project whose \<^verbatim>\<open>estimated_value\<close> is 0 is drawn with the
  value \<^verbatim>\<open>N/A\<close>, the same as a missing value, not as a currency amount.
\<close>

theorem project_zero_value_counterexample:
  "display_projects_table
     (JList [JObj [(''name'', JStr ''Portal''), (''client'', JStr ''Google''),
                   (''status'', JStr ''active''), (''estimated_value'', JInt 0)]])
   = Inr [Dataframe [\<lparr>Project = JStr ''Portal'', Client = JStr ''Google'',
                      Status = ''ACTIVE'', Value = ''N/A''\<rparr>]]"
  by (simp add: display_projects_table_def project_value_def dict_get_def upper_def char_eval)

text \<open>
  C4, amended. The value 120000 is drawn as the rupee sign followed by \<^verbatim>\<open>120,000\<close>, and
  every non-zero integer of magnitude below \<open>2 ^ 53\<close> as the rupee sign, its sign, and
  its decimal digits in groups of three with no decimals. A missing value and \<^verbatim>\<open>None\<close>
  are drawn as \<^verbatim>\<open>N/A\<close>, and so is every other value that Python takes for false, the
  number zero among them.
\<close>

theorem project_value_rendering:
  "(dict_get p ''estimated_value'' JNull = JInt 120000 \<longrightarrow>
      project_value p = Inr (rupee @ ''120,000''))
   \<and> (\<forall>n. dict_get p ''estimated_value'' JNull = JInt n \<and> n \<noteq> 0 \<and> \<bar>n\<bar> < 2 ^ 53 \<longrightarrow>
      project_value p
        = Inr (rupee @ (if n < 0 then ''-'' else []) @ thousands (digits (nat \<bar>n\<bar>))))
   \<and> (map_of p ''estimated_value'' = None \<or> map_of p ''estimated_value'' = Some JNull \<longrightarrow>
      project_value p = Inr ''N/A'')
   \<and> (\<not> truthy (dict_get p ''estimated_value'' JNull) \<longrightarrow> project_value p = Inr ''N/A'')
   \<and> (map_of p ''estimated_value'' = Some (JInt 0) \<longrightarrow> project_value p = Inr ''N/A'')"
proof -
  have get: "dict_get p ''estimated_value'' (JInt 0) = JInt n"
    if "dict_get p ''estimated_value'' JNull = JInt n" for n
    using that by (auto simp: dict_get_def split: option.splits)
  have general: "project_value p
        = Inr (rupee @ (if n < 0 then ''-'' else []) @ thousands (digits (nat \<bar>n\<bar>)))"
    if "dict_get p ''estimated_value'' JNull = JInt n" "n \<noteq> 0" "\<bar>n\<bar> < 2 ^ 53" for n
    using that get [OF that(1)] by (simp add: project_value_def format_currency_int)
  have "thousands (digits (nat \<bar>120000 :: int\<bar>)) = ''120,000''"
    by (simp add: digits.simps digit_char_def thousands_def)
  then have first: "project_value p = Inr (rupee @ ''120,000'')"
    if "dict_get p ''estimated_value'' JNull = JInt 120000"
    using general [OF that] by simp
  have falsy: "project_value p = Inr ''N/A''"
    if "\<not> truthy (dict_get p ''estimated_value'' JNull)"
    using that by (simp add: project_value_def)
  have missing: "project_value p = Inr ''N/A''"
    if "map_of p ''estimated_value'' = None \<or> map_of p ''estimated_value'' = Some JNull"
    using that by (auto simp: project_value_def dict_get_def)
  have zero: "project_value p = Inr ''N/A''"
    if "map_of p ''estimated_value'' = Some (JInt 0)"
    using that by (simp add: project_value_def dict_get_def)
  from first general falsy missing zero show ?thesis by blast
qed

theorem project_value_rendering_witness:
  "project_value [(''estimated_value'', JInt 120000)] = Inr (rupee @ ''120,000'')
   \<and> project_value [(''estimated_value'', JInt (- 1234567))] = Inr (rupee @ ''-1,234,567'')
   \<and> project_value [(''name'', JStr ''Portal'')] = Inr ''N/A''
   \<and> project_value [(''estimated_value'', JNull)] = Inr ''N/A''
   \<and> project_value [(''estimated_value'', JFloat (Finite False 0 0))] = Inr ''N/A''
   \<and> project_value [(''estimated_value'', JInt 0)] = Inr ''N/A''"
proof -
  have a: "project_value [(''estimated_value'', JInt 120000)] = Inr (rupee @ ''120,000'')"
    using project_value_rendering [of "[(''estimated_value'', JInt 120000)]"]
    by (simp add: dict_get_def)
  have "project_value [(''estimated_value'', JInt (- 1234567))]
          = Inr (rupee @ ''-'' @ thousands (digits (nat \<bar>- 1234567 :: int\<bar>)))"
    using project_value_rendering [of "[(''estimated_value'', JInt (- 1234567))]"]
    by (simp add: dict_get_def)
  then have b: "project_value [(''estimated_value'', JInt (- 1234567))]
          = Inr (rupee @ ''-1,234,567'')"
    by (simp add: digits.simps digit_char_def thousands_def)
  have c: "project_value [(''name'', JStr ''Portal'')] = Inr ''N/A''"
    using project_value_rendering [of "[(''name'', JStr ''Portal'')]"] by simp
  have d: "project_value [(''estimated_value'', JNull)] = Inr ''N/A''"
    using project_value_rendering [of "[(''estimated_value'', JNull)]"] by simp
  have e: "project_value [(''estimated_value'', JFloat (Finite False 0 0))] = Inr ''N/A''"
    using project_value_rendering [of "[(''estimated_value'', JFloat (Finite False 0 0))]"]
    by (simp add: dict_get_def)
  have f: "project_value [(''estimated_value'', JInt 0)] = Inr ''N/A''"
    using project_value_rendering [of "[(''estimated_value'', JInt 0)]"] by simp
  from a b c d e f show ?thesis by simp
qed

text \<open>
  C8. For an empty sequence of projects (and for \<^verbatim>\<open>None\<close>) the renderer draws the
  message \<^verbatim>\<open>No projects found\<close> and nothing else. A table is drawn only for a non-empty
  list, with one row for each project; a non-empty list whose rows can all be built is
  drawn as exactly one table.
\<close>

theorem display_projects_table_empty_state:
  "display_projects_table (JList []) = Inr [Info ''No projects found'']
   \<and> (\<not> truthy projects \<longrightarrow> display_projects_table projects = Inr [Info ''No projects found''])
   \<and> (display_projects_table projects = Inr shown \<and> Dataframe rows \<in> set shown \<longrightarrow>
        (\<exists>ps. projects = JList ps \<and> ps \<noteq> [] \<and> length rows = length ps
              \<and> shown = [Dataframe rows]))
   \<and> (ps \<noteq> [] \<and> traverse project_row ps = Inr rows' \<longrightarrow>
        display_projects_table (JList ps) = Inr [Dataframe rows'])"
proof -
  have empty: "display_projects_table (JList []) = Inr [Info ''No projects found'']"
    by (simp add: display_projects_table_def)
  have falsy: "display_projects_table projects = Inr [Info ''No projects found'']"
    if "\<not> truthy projects"
    using that by (simp add: display_projects_table_def)
  have only: "\<exists>ps. projects = JList ps \<and> ps \<noteq> [] \<and> length rows = length ps
                \<and> shown = [Dataframe rows]"
    if shown: "display_projects_table projects = Inr shown" and tab: "Dataframe rows \<in> set shown"
  proof -
    from shown tab have t: "truthy projects"
      by (auto simp: display_projects_table_def split: if_splits)
    with shown obtain items where items: "py_iter projects = Inr items"
      and rows: "traverse project_row items = Inr rows" and sh: "shown = [Dataframe rows]"
      using tab by (auto simp: display_projects_table_def split: sum.splits)
    have len: "length rows = length items"
      using rows by (rule traverse_length)
    show ?thesis
    proof (cases projects)
      case (JList ps)
      with t items len sh show ?thesis by auto
    next
      case (JStr str)
      with t items obtain w ws where "items = JStr w # ws"
        by (cases str) auto
      with rows show ?thesis by simp
    next
      case (JObj kvs)
      with t items obtain w ws where "items = JStr w # ws"
        by (cases kvs) auto
      with rows show ?thesis by simp
    qed (use items in auto)
  qed
  have table: "display_projects_table (JList ps) = Inr [Dataframe rows']"
    if "ps \<noteq> []" "traverse project_row ps = Inr rows'"
    using that by (simp add: display_projects_table_def)
  from empty falsy only table show ?thesis by blast
qed

theorem display_projects_table_empty_state_witness:
  "display_projects_table (JList []) = Inr [Info ''No projects found'']
   \<and> display_projects_table JNull = Inr [Info ''No projects found'']
   \<and> display_projects_table
       (JList [JObj [(''name'', JStr ''Portal''), (''status'', JStr ''on hold'')]])
     = Inr [Dataframe [\<lparr>Project = JStr ''Portal'', Client = JStr ''N/A'',
                        Status = ''ON HOLD'', Value = ''N/A''\<rparr>]]"
proof -
  have row: "traverse project_row [JObj [(''name'', JStr ''Portal''), (''status'', JStr ''on hold'')]]
      = Inr [\<lparr>Project = JStr ''Portal'', Client = JStr ''N/A'',
               Status = ''ON HOLD'', Value = ''N/A''\<rparr>]"
    by (simp add: project_value_def dict_get_def upper_def char_eval)
  show ?thesis
    using display_projects_table_empty_state
            [of JNull "[]" "[]"
                "[JObj [(''name'', JStr ''Portal''), (''status'', JStr ''on hold'')]]"
                "[\<lparr>Project = JStr ''Portal'', Client = JStr ''N/A'',
                   Status = ''ON HOLD'', Value = ''N/A''\<rparr>]"]
      row
    by simp
qed

section \<open>Properties of the chat page\<close>

lemma display_nlp_chat_session:
  "fst (snd (display_nlp_chat be s message send_button)) = s"
  by (simp add: display_nlp_chat_def split: prod.split sum.split option.split)

lemma display_nlp_chat_page:
  assumes "user_id s = Some uid"
    and "chat_messages s = Some msgs"
    and "history_view msgs = Inr history"
    and "message \<noteq> []"
    and "process_nlp_message be message uid = (result, log)"
    and "nlp_result_view result = Inr shown"
  shows "display_nlp_chat be s message True = (Inr (nlp_chat_header @ shown @ history), s, log)"
  using assms by (simp add: display_nlp_chat_def)

lemma process_nlp_message_assignment:
  "process_nlp_message assignment_backend message uid =
     (assignment_result,
      [the_request ''/api/mcp/message'' ''POST''
         (Some (JObj [(''message'', JStr message), (''user_id'', uid)]))])"
  by (simp add: process_nlp_message_def api_call_def api_call_try_def after_request_def
        raise_for_status_def response_json_def assignment_backend_def the_request_def)

lemma format_percent_92:
  "format_percent (JFloat (Finite False 8286623314361713 (- 53))) = Inr ''92%''"
  by (simp add: format_percent_def num_eval)

text \<open>
  C2: the code does not do what the claim says. A command is submitted from a fresh
  session and the backend answers with success; the request is sent, and after the run
  the history of the session is still empty: no record was appended.
\<close>

theorem display_nlp_chat_history_not_appended:
  "chat_messages (initialize_session empty_session) = Some []
   \<and> snd (snd (display_nlp_chat assignment_backend (initialize_session empty_session)
                  ''Ramesh is assigned to Google project'' True))
       = [the_request ''/api/mcp/message'' ''POST''
            (Some (JObj [(''message'', JStr ''Ramesh is assigned to Google project''),
                         (''user_id'', JInt 1)]))]
   \<and> chat_messages
         (fst (snd (display_nlp_chat assignment_backend (initialize_session empty_session)
                      ''Ramesh is assigned to Google project'' True)))
       = Some []"
proof -
  have init: "initialize_session empty_session
      = \<lparr>user_id = Some (JInt 1), user_role = Some (JStr ''manager''), chat_messages = Some []\<rparr>"
    by (simp add: initialize_session_def empty_session_def)
  have log: "snd (snd (display_nlp_chat assignment_backend (initialize_session empty_session)
                  ''Ramesh is assigned to Google project'' True))
       = [the_request ''/api/mcp/message'' ''POST''
            (Some (JObj [(''message'', JStr ''Ramesh is assigned to Google project''),
                         (''user_id'', JInt 1)]))]"
    unfolding init display_nlp_chat_def
    by (simp add: process_nlp_message_assignment split: sum.split)
  show ?thesis
    using log by (simp add: display_nlp_chat_session) (simp add: init)
qed

text \<open>
  C6. A command is submitted from a session that holds a user id and a history, the
  backend answers with a successful result whose parsed mapping and execution mapping
  are dictionaries with ASCII keys, and the confidence can be formatted. Then the page
  draws, after its heading, the intent, the action and the confidence, then one line for
  each key of the parsed mapping outside the reserved set, in the order of the mapping,
  labelled with the key after underscores became spaces and the words were title-cased,
  and paired with the value; when the execution succeeded it draws the lines of the
  execution data by the same rule; the history follows. The key
  \<^verbatim>\<open>pending_payments_count\<close> gets the label \<^verbatim>\<open>Pending Payments Count\<close>.
\<close>

theorem display_nlp_chat_entity_rows:
  assumes "user_id s = Some uid"
    and "chat_messages s = Some msgs"
    and "history_view msgs = Inr history"
    and "message \<noteq> []"
    and "fst (process_nlp_message be message uid) = JObj result"
    and "truthy (dict_get result ''success'' JNull)"
    and "dict_get result ''parsed'' (JObj []) = JObj parsed"
    and "\<forall>kv \<in> set parsed. is_ascii (fst kv)"
    and "format_percent (dict_get parsed ''confidence'' (JInt 0)) = Inr pct"
    and "dict_get result ''execution'' (JObj []) = JObj execution"
    and "truthy (dict_get execution ''success'' JNull) \<longrightarrow>
           dict_get execution ''data'' (JObj []) = JObj data
           \<and> (\<forall>kv \<in> set data. is_ascii (fst kv))"
  shows "fst (display_nlp_chat be s message True) =
           Inr (nlp_chat_header
                @ [Success [Lit (check_mark @ '' Message processed successfully!'')],
                   Subheader (magnifier @ '' Parsed Intent''),
                   Write [Lit ''**Intent**: '', Val (dict_get parsed ''intent'' (JStr ''N/A''))],
                   Write [Lit ''**Action**: '', Val (dict_get parsed ''action'' (JStr ''N/A''))],
                   Write [Lit ''**Confidence**: '', Lit pct],
                   Subheader (clipboard @ '' Extracted Entities'')]
                @ map (\<lambda>kv. Write [Lit ''- **'', Lit (title (replace_underscores (fst kv))),
                                    Lit ''**: '', Val (snd kv)])
                    (filter (\<lambda>kv. fst kv \<notin> {''intent'', ''action'', ''confidence'',
                                               ''original_message'', ''timestamp''}) parsed)
                @ (if truthy (dict_get execution ''success'' JNull)
                   then [Subheader (sparkles @ '' Execution Result''),
                         Write [Lit ''**Status**: '',
                                Val (dict_get execution ''action'' (JStr ''N/A''))]]
                        @ map (\<lambda>kv. Write [Lit ''- **'',
                                             Lit (title (replace_underscores (fst kv))),
                                             Lit ''**: '', Val (snd kv)]) data
                   else [])
                @ history)
         \<and> humanize ''pending_payments_count'' = ''Pending Payments Count''"
proof -
  have line: "entity_line = (\<lambda>kv. Write [Lit ''- **'', Lit (title (replace_underscores (fst kv))),
                                        Lit ''**: '', Val (snd kv)])"
    by (rule ext) (simp add: entity_line_def humanize_def)
  have keys: "set reserved_keys = {''intent'', ''action'', ''confidence'',
                                    ''original_message'', ''timestamp''}"
    by (simp add: reserved_keys_def)
  have parsed: "parsed_view (JObj parsed) =
           Inr ([Subheader (magnifier @ '' Parsed Intent''),
                 Write [Lit ''**Intent**: '', Val (dict_get parsed ''intent'' (JStr ''N/A''))],
                 Write [Lit ''**Action**: '', Val (dict_get parsed ''action'' (JStr ''N/A''))],
                 Write [Lit ''**Confidence**: '', Lit pct],
                 Subheader (clipboard @ '' Extracted Entities'')]
                @ map entity_line (filter (\<lambda>kv. fst kv \<notin> set reserved_keys) parsed))"
    using assms(9) by (simp add: Let_def)
  have executed: "execution_view (JObj execution) =
           Inr (if truthy (dict_get execution ''success'' JNull)
                then [Subheader (sparkles @ '' Execution Result''),
                      Write [Lit ''**Status**: '',
                             Val (dict_get execution ''action'' (JStr ''N/A''))]]
                     @ map entity_line data
                else [])"
    using assms(11) by simp
  have label: "humanize ''pending_payments_count'' = ''Pending Payments Count''"
    by (simp add: humanize_def title_def replace_underscores_def char_eval)
  have view: "nlp_result_view (JObj result) =
          Inr (Success [Lit (check_mark @ '' Message processed successfully!'')]
               # ([Subheader (magnifier @ '' Parsed Intent''),
                   Write [Lit ''**Intent**: '', Val (dict_get parsed ''intent'' (JStr ''N/A''))],
                   Write [Lit ''**Action**: '', Val (dict_get parsed ''action'' (JStr ''N/A''))],
                   Write [Lit ''**Confidence**: '', Lit pct],
                   Subheader (clipboard @ '' Extracted Entities'')]
                  @ map entity_line (filter (\<lambda>kv. fst kv \<notin> set reserved_keys) parsed))
               @ (if truthy (dict_get execution ''success'' JNull)
                  then [Subheader (sparkles @ '' Execution Result''),
                        Write [Lit ''**Status**: '',
                               Val (dict_get execution ''action'' (JStr ''N/A''))]]
                       @ map entity_line data
                  else []))"
    unfolding nlp_result_view.simps assms(7) assms(10) parsed executed
    using assms(6) by simp
  obtain log where call: "process_nlp_message be message uid = (JObj result, log)"
    using assms(5) by (cases "process_nlp_message be message uid") simp
  from display_nlp_chat_page [OF assms(1) assms(2) assms(3) assms(4) call view]
  have "fst (display_nlp_chat be s message True) =
          Inr (nlp_chat_header
               @ (Success [Lit (check_mark @ '' Message processed successfully!'')]
                  # ([Subheader (magnifier @ '' Parsed Intent''),
                      Write [Lit ''**Intent**: '', Val (dict_get parsed ''intent'' (JStr ''N/A''))],
                      Write [Lit ''**Action**: '', Val (dict_get parsed ''action'' (JStr ''N/A''))],
                      Write [Lit ''**Confidence**: '', Lit pct],
                      Subheader (clipboard @ '' Extracted Entities'')]
                     @ map entity_line (filter (\<lambda>kv. fst kv \<notin> set reserved_keys) parsed))
                  @ (if truthy (dict_get execution ''success'' JNull)
                     then [Subheader (sparkles @ '' Execution Result''),
                           Write [Lit ''**Status**: '',
                                  Val (dict_get execution ''action'' (JStr ''N/A''))]]
                          @ map entity_line data
                     else []))
               @ history)"
    by simp
  then show ?thesis
    unfolding line keys using label by simp
qed

theorem display_nlp_chat_entity_rows_witness:
  "fst (display_nlp_chat assignment_backend (initialize_session empty_session)
          ''Ramesh is assigned to Google project'' True) =
     Inr (nlp_chat_header
          @ [Success [Lit (check_mark @ '' Message processed successfully!'')],
             Subheader (magnifier @ '' Parsed Intent''),
             Write [Lit ''**Intent**: '', Val (JStr ''assignment'')],
             Write [Lit ''**Action**: '', Val (JStr ''assign_employee'')],
             Write [Lit ''**Confidence**: '', Lit ''92%''],
             Subheader (clipboard @ '' Extracted Entities''),
             Write [Lit ''- **'', Lit ''Employee'', Lit ''**: '', Val (JStr ''Ramesh'')],
             Write [Lit ''- **'', Lit ''Project'', Lit ''**: '', Val (JStr ''Google'')],
             Subheader (sparkles @ '' Execution Result''),
             Write [Lit ''**Status**: '', Val (JStr ''assigned'')],
             Write [Lit ''- **'', Lit ''Employee'', Lit ''**: '', Val (JStr ''Ramesh'')],
             Write [Lit ''- **'', Lit ''Project'', Lit ''**: '', Val (JStr ''Google'')],
             Subheader (memo @ '' Message History''),
             Info ''No messages yet. Send a message to get started!''])"
proof -
  have labels: "title (replace_underscores ''employee'') = ''Employee''"
    "title (replace_underscores ''project'') = ''Project''"
    by (simp_all add: title_def replace_underscores_def char_eval)
  have uid: "user_id (initialize_session empty_session) = Some (JInt 1)"
    and msgs: "chat_messages (initialize_session empty_session) = Some []"
    by (simp_all add: initialize_session_def empty_session_def)
  have history: "history_view [] = Inr [Subheader (memo @ '' Message History''),
                                       Info ''No messages yet. Send a message to get started!'']"
    by (simp add: history_view_def)
  have call: "fst (process_nlp_message assignment_backend
                     ''Ramesh is assigned to Google project'' (JInt 1))
      = JObj [(''success'', JBool True),
              (''parsed'', JObj [(''intent'', JStr ''assignment''),
                                 (''action'', JStr ''assign_employee''),
                                 (''confidence'', JFloat (Finite False 8286623314361713 (- 53))),
                                 (''employee'', JStr ''Ramesh''),
                                 (''project'', JStr ''Google'')]),
              (''execution'', JObj [(''success'', JBool True),
                                    (''action'', JStr ''assigned''),
                                    (''data'', JObj [(''employee'', JStr ''Ramesh''),
                                                     (''project'', JStr ''Google'')])])]"
    by (simp add: process_nlp_message_assignment assignment_result_def)
  show ?thesis
    using display_nlp_chat_entity_rows
            [OF uid msgs history _ call,
             of "[(''intent'', JStr ''assignment''),
                  (''action'', JStr ''assign_employee''),
                  (''confidence'', JFloat (Finite False 8286623314361713 (- 53))),
                  (''employee'', JStr ''Ramesh''),
                  (''project'', JStr ''Google'')]"
                "''92%''"
                "[(''success'', JBool True),
                  (''action'', JStr ''assigned''),
                  (''data'', JObj [(''employee'', JStr ''Ramesh''),
                                   (''project'', JStr ''Google'')])]"
                "[(''employee'', JStr ''Ramesh''), (''project'', JStr ''Google'')]"]
      format_percent_92 labels
    by (simp add: dict_get_def is_ascii_def)
qed

lemma history_view_last_five:
  assumes "msgs \<noteq> []" and "traverse history_entry (slice_last 5 msgs) = Inr entries"
  shows "history_view msgs = Inr (Subheader (memo @ '' Message History'') # entries)
         \<and> length entries = min 5 (length msgs)"
proof -
  have "length entries = length (slice_last 5 msgs)"
    using assms(2) by (rule traverse_length)
  then show ?thesis
    using assms by (simp add: history_view_def slice_last_def)
qed

lemma run_submissions_session: "run_submissions be s commands = s"
  by (induction commands arbitrary: s) (simp_all add: display_nlp_chat_session)

text \<open>
  C7: the code does not do what the claim says. Three commands are submitted in order
  from a fresh session and the backend answers each with success. The page drawn after
  them holds no record at all: under the history heading it shows
  \<^verbatim>\<open>No messages yet. Send a message to get started!\<close>, and the history of the session
  is empty. The slice of the last five is taken of a history that is never filled.
\<close>

theorem history_empty_after_three_submissions:
  "chat_messages
     (run_submissions assignment_backend (initialize_session empty_session)
        [''Google project active karo'', ''Ramesh is assigned to Google project'',
         ''Dharmendra ke sare active project dikhado''])
     = Some []
   \<and> fst (display_nlp_chat assignment_backend
            (run_submissions assignment_backend (initialize_session empty_session)
               [''Google project active karo'', ''Ramesh is assigned to Google project'',
                ''Dharmendra ke sare active project dikhado''])
            [] False)
     = Inr (nlp_chat_header
            @ [Subheader (memo @ '' Message History''),
               Info ''No messages yet. Send a message to get started!''])"
proof -
  have init: "initialize_session empty_session
      = \<lparr>user_id = Some (JInt 1), user_role = Some (JStr ''manager''), chat_messages = Some []\<rparr>"
    by (simp add: initialize_session_def empty_session_def)
  show ?thesis
    unfolding run_submissions_session init
    by (simp add: display_nlp_chat_def history_view_def)
qed

section \<open>Properties of the sidebar\<close>

text \<open>
  C10. When the answer of \<^verbatim>\<open>/health\<close> is a dictionary, the sidebar draws the connected
  state exactly when the \<^verbatim>\<open>success\<close> field is true for Python or the key \<^verbatim>\<open>status\<close>
  is present, and the disconnected state otherwise. An answer without \<^verbatim>\<open>success\<close>
  that has the key \<^verbatim>\<open>status\<close> is drawn as connected.
\<close>

theorem server_status_connected_iff:
  assumes "fst (api_call be ''/health'' ''GET'' None) = JObj health"
  shows "((fst (server_status be)
            = Inr [Subheader (link_sign @ '' Server Status''),
                   Success [Lit (check_mark @ '' Connected (v''),
                            Val (dict_get health ''version'' (JStr ''unknown'')), Lit '')'']])
          = (truthy (dict_get health ''success'' JNull) \<or> ''status'' \<in> fst ` set health))
       \<and> ((fst (server_status be)
            = Inr [Subheader (link_sign @ '' Server Status''),
                   Error [Lit (cross_mark @ '' Cannot connect to API server'')]])
          = (\<not> (truthy (dict_get health ''success'' JNull) \<or> ''status'' \<in> fst ` set health)))
       \<and> (map_of health ''success'' = None \<and> ''status'' \<in> fst ` set health \<longrightarrow>
            fst (server_status be)
            = Inr [Subheader (link_sign @ '' Server Status''),
                   Success [Lit (check_mark @ '' Connected (v''),
                            Val (dict_get health ''version'' (JStr ''unknown'')), Lit '')'']])"
proof -
  obtain log where call: "api_call be ''/health'' ''GET'' None = (JObj health, log)"
    using assms by (cases "api_call be ''/health'' ''GET'' None") simp
  have "fst (server_status be)
      = Inr [Subheader (link_sign @ '' Server Status''),
             if truthy (dict_get health ''success'' JNull) \<or> ''status'' \<in> fst ` set health
             then Success [Lit (check_mark @ '' Connected (v''),
                           Val (dict_get health ''version'' (JStr ''unknown'')), Lit '')'']
             else Error [Lit (cross_mark @ '' Cannot connect to API server'')]]"
    unfolding server_status_def call by (simp add: dict_contains_def)
  then show ?thesis by simp
qed

theorem server_status_connected_iff_witness:
  "fst (server_status health_backend)
     = Inr [Subheader (link_sign @ '' Server Status''),
            Success [Lit (check_mark @ '' Connected (v''), Val (JStr ''1.0.0''), Lit '')'']]
   \<and> fst (server_status (\<lambda>rq. Inl (Exc ConnectionError ''Connection refused'')))
     = Inr [Subheader (link_sign @ '' Server Status''),
            Error [Lit (cross_mark @ '' Cannot connect to API server'')]]"
proof -
  have healthy: "fst (api_call health_backend ''/health'' ''GET'' None)
      = JObj [(''status'', JStr ''healthy''), (''version'', JStr ''1.0.0'')]"
    by (simp add: api_call_def api_call_try_def after_request_def raise_for_status_def
          response_json_def health_backend_def)
  have refused: "fst (api_call (\<lambda>rq. Inl (Exc ConnectionError ''Connection refused''))
                        ''/health'' ''GET'' None)
      = JObj [(''success'', JBool False),
              (''error'', JStr ''Cannot connect to API server. Is it running on port 8000?'')]"
    by (simp add: api_call_def api_call_try_def after_request_def failure_def)
  show ?thesis
    using server_status_connected_iff [OF healthy] server_status_connected_iff [OF refused]
    by (simp add: dict_get_def)
qed

end
